theory Spec2Isabelle
  imports Main
begin

section \<open>Python values held by a Constant node\<close>

text \<open>
  \<^verbatim>\<open>Constant.__init__\<close> stores whatever value it is given, and \<^verbatim>\<open>to_expression\<close>
  wraps every value that is not an Expression. Python's unbounded ints are modelled
  exactly as \<open>int\<close>. Every other Python object (a float, a str, \<^verbatim>\<open>None\<close>, ...) is an
  element of the type parameter \<open>'o\<close>; what Python's \<^verbatim>\<open>==\<close>, \<^verbatim>\<open>+\<close>, \<^verbatim>\<open>*\<close>,
  \<^verbatim>\<open>**\<close> and \<^verbatim>\<open>str\<close> do on such objects belongs to the host language, not to the
  source file, and is taken as a parameter (the record \<open>pyops\<close>). The arithmetic may
  raise; \<^verbatim>\<open>==\<close> is taken to answer with a bool. Theorems stated for an arbitrary \<open>ops\<close>
  hold whatever those operations do.

  Exceptions are values: a function that can raise returns \<open>pyerr + 'a\<close>, with \<open>Inl\<close>
  for the exception. Memory and Python's recursion limit are not modelled.
\<close>

datatype pyerr = ZeroDivisionError | OverflowError | TypeError | NonInteger

datatype 'o pyval = PyInt int | PyObj 'o

record 'o pyops =
  obj_eq :: "'o \<Rightarrow> int \<Rightarrow> bool"
  obj_add :: "'o pyval \<Rightarrow> 'o pyval \<Rightarrow> pyerr + 'o pyval"
  obj_mul :: "'o pyval \<Rightarrow> 'o pyval \<Rightarrow> pyerr + 'o pyval"
  obj_pow :: "'o pyval \<Rightarrow> 'o pyval \<Rightarrow> pyerr + 'o pyval"
  obj_str :: "'o \<Rightarrow> string"

text \<open>\<^verbatim>\<open>value == n\<close> for an int literal \<open>n\<close> (the source compares with 0 and 1).\<close>

fun value_eq :: "'o pyops \<Rightarrow> 'o pyval \<Rightarrow> int \<Rightarrow> bool" where
  "value_eq ops (PyInt i) n = (i = n)"
| "value_eq ops (PyObj x) n = obj_eq ops x n"

text \<open>\<^verbatim>\<open>a + b\<close> and \<^verbatim>\<open>a * b\<close> on two values: exact on two ints.\<close>

fun py_add :: "'o pyops \<Rightarrow> 'o pyval \<Rightarrow> 'o pyval \<Rightarrow> pyerr + 'o pyval" where
  "py_add ops (PyInt a) (PyInt b) = Inr (PyInt (a + b))"
| "py_add ops a b = obj_add ops a b"

fun py_mul :: "'o pyops \<Rightarrow> 'o pyval \<Rightarrow> 'o pyval \<Rightarrow> pyerr + 'o pyval" where
  "py_mul ops (PyInt a) (PyInt b) = Inr (PyInt (a * b))"
| "py_mul ops a b = obj_mul ops a b"

text \<open>
  \<^verbatim>\<open>a ** b\<close>: on two ints with \<open>b \<ge> 0\<close> the result is the int power (\<^verbatim>\<open>0 ** 0\<close> is 1).
  With \<open>b < 0\<close> Python converts both to float: base 0 raises \<^verbatim>\<open>ZeroDivisionError\<close>, any
  other base gives a non-int result (\<^verbatim>\<open>2 ** -1\<close> is \<^verbatim>\<open>0.5\<close>), left to \<open>obj_pow\<close>.
\<close>

fun py_pow :: "'o pyops \<Rightarrow> 'o pyval \<Rightarrow> 'o pyval \<Rightarrow> pyerr + 'o pyval" where
  "py_pow ops (PyInt a) (PyInt b) =
     (if 0 \<le> b then Inr (PyInt (a ^ nat b))
      else if a = 0 then Inl ZeroDivisionError
      else obj_pow ops (PyInt a) (PyInt b))"
| "py_pow ops a b = obj_pow ops a b"

text \<open>
  The instance \<open>int_only\<close> describes Python restricted to ints: it has no object equal
  to 0 or 1 and reports every operation that involves or produces a non-int value as
  \<open>NonInteger\<close>. \<open>NonInteger\<close> is not a Python exception; it marks the point where
  Python goes on with a value that this instance does not describe. A run under
  \<open>int_only\<close> that returns a tree never reaches such a point.
\<close>

definition int_only :: "'o pyops" where
  "int_only =
     \<lparr>obj_eq = (\<lambda>x n. False),
      obj_add = (\<lambda>a b. Inl NonInteger),
      obj_mul = (\<lambda>a b. Inl NonInteger),
      obj_pow = (\<lambda>a b. Inl NonInteger),
      obj_str = (\<lambda>x. [])\<rparr>"

text \<open>\<^verbatim>\<open>str(n)\<close> for an int: decimal digits, with a leading minus sign below zero.\<close>

function digits :: "nat \<Rightarrow> string" where
  "digits n =
     (if n < 10 then [''0123456789'' ! n]
      else digits (n div 10) @ [''0123456789'' ! (n mod 10)])"
  by pat_completeness auto
termination
  by (relation "measure (\<lambda>n. n)") auto

declare digits.simps [simp del]

definition str_int :: "int \<Rightarrow> string" where
  "str_int i = (if i < 0 then CHR ''-'' # digits (nat (- i)) else digits (nat i))"

fun str_value :: "'o pyops \<Rightarrow> 'o pyval \<Rightarrow> string" where
  "str_value ops (PyInt i) = str_int i"
| "str_value ops (PyObj x) = obj_str ops x"

section \<open>The expression tree\<close>

text \<open>
  The five subclasses of \<^verbatim>\<open>Expression\<close>, with their fields in the order of
  \<^verbatim>\<open>__init__\<close>.
\<close>

datatype 'o expr =
    Constant "'o pyval"
  | Variable string
  | Add "'o expr" "'o expr"
  | Multiply "'o expr" "'o expr"
  | Power "'o expr" "'o expr"

text \<open>\<^verbatim>\<open>__str__\<close>: every binary node is parenthesised.\<close>

fun str :: "'o pyops \<Rightarrow> 'o expr \<Rightarrow> string" where
  "str ops (Constant v) = str_value ops v"
| "str ops (Variable name) = name"
| "str ops (Add left right) = ''('' @ str ops left @ '' + '' @ str ops right @ '')''"
| "str ops (Multiply left right) = ''('' @ str ops left @ '' * '' @ str ops right @ '')''"
| "str ops (Power base exponent) = ''('' @ str ops base @ ''^'' @ str ops exponent @ '')''"

section \<open>Simplification\<close>

text \<open>\<^verbatim>\<open>isinstance(e, Constant) and e.value == n\<close>.\<close>

fun const_eq :: "'o pyops \<Rightarrow> 'o expr \<Rightarrow> int \<Rightarrow> bool" where
  "const_eq ops (Constant v) n = value_eq ops v n"
| "const_eq ops e n = False"

text \<open>
  The three \<^verbatim>\<open>simplify\<close> methods first simplify both children and then run a chain of
  \<^verbatim>\<open>if ... return\<close> tests on the results. The chains are \<open>simplify_Add\<close>,
  \<open>simplify_Multiply\<close> and \<open>simplify_Power\<close>, in the order of the source; \<open>simplify\<close>
  below supplies the simplified children. An exception raised by the arithmetic on two
  constant values leaves the method, as \<open>Inl\<close>.
\<close>

definition simplify_Add :: "'o pyops \<Rightarrow> 'o expr \<Rightarrow> 'o expr \<Rightarrow> pyerr + 'o expr" where
  "simplify_Add ops left right =
     (if const_eq ops left 0 then Inr right
      else if const_eq ops right 0 then Inr left
      else (case (left, right) of
              (Constant a, Constant b) \<Rightarrow>
                (case py_add ops a b of Inl err \<Rightarrow> Inl err | Inr v \<Rightarrow> Inr (Constant v))
            | _ \<Rightarrow> Inr (Add left right)))"

definition simplify_Multiply :: "'o pyops \<Rightarrow> 'o expr \<Rightarrow> 'o expr \<Rightarrow> pyerr + 'o expr" where
  "simplify_Multiply ops left right =
     (if const_eq ops left 0 then Inr (Constant (PyInt 0))
      else if const_eq ops right 0 then Inr (Constant (PyInt 0))
      else if const_eq ops left 1 then Inr right
      else if const_eq ops right 1 then Inr left
      else (case (left, right) of
              (Constant a, Constant b) \<Rightarrow>
                (case py_mul ops a b of Inl err \<Rightarrow> Inl err | Inr v \<Rightarrow> Inr (Constant v))
            | _ \<Rightarrow> Inr (Multiply left right)))"

definition simplify_Power :: "'o pyops \<Rightarrow> 'o expr \<Rightarrow> 'o expr \<Rightarrow> pyerr + 'o expr" where
  "simplify_Power ops base exponent =
     (if const_eq ops exponent 0 then Inr (Constant (PyInt 1))
      else if const_eq ops exponent 1 then Inr base
      else (case (base, exponent) of
              (Constant a, Constant b) \<Rightarrow>
                (case py_pow ops a b of Inl err \<Rightarrow> Inl err | Inr v \<Rightarrow> Inr (Constant v))
            | _ \<Rightarrow> Inr (Power base exponent)))"

fun simplify :: "'o pyops \<Rightarrow> 'o expr \<Rightarrow> pyerr + 'o expr" where
  "simplify ops (Constant v) = Inr (Constant v)"
| "simplify ops (Variable name) = Inr (Variable name)"
| "simplify ops (Add l r) =
     (case simplify ops l of Inl err \<Rightarrow> Inl err | Inr left \<Rightarrow>
      case simplify ops r of Inl err \<Rightarrow> Inl err | Inr right \<Rightarrow>
        simplify_Add ops left right)"
| "simplify ops (Multiply l r) =
     (case simplify ops l of Inl err \<Rightarrow> Inl err | Inr left \<Rightarrow>
      case simplify ops r of Inl err \<Rightarrow> Inl err | Inr right \<Rightarrow>
        simplify_Multiply ops left right)"
| "simplify ops (Power b e) =
     (case simplify ops b of Inl err \<Rightarrow> Inl err | Inr base \<Rightarrow>
      case simplify ops e of Inl err \<Rightarrow> Inl err | Inr exponent \<Rightarrow>
        simplify_Power ops base exponent)"

text \<open>The number of nodes of a tree, the measure for the recursion of \<open>differentiate\<close>.\<close>

fun nodes :: "'o expr \<Rightarrow> nat" where
  "nodes (Constant v) = 1"
| "nodes (Variable name) = 1"
| "nodes (Add l r) = Suc (nodes l + nodes r)"
| "nodes (Multiply l r) = Suc (nodes l + nodes r)"
| "nodes (Power b e) = Suc (nodes b + nodes e)"

section \<open>Differentiation\<close>

text \<open>
  Each \<^verbatim>\<open>differentiate\<close> method of a binary node simplifies both children first and
  differentiates the simplified children. The recursion is therefore on the results of
  \<open>simplify\<close>, which have no more nodes than the children they come from.
\<close>

function differentiate :: "'o pyops \<Rightarrow> 'o expr \<Rightarrow> string \<Rightarrow> pyerr + 'o expr" where
  "differentiate ops (Constant v) var = Inr (Constant (PyInt 0))"
| "differentiate ops (Variable name) var =
     Inr (if name = var then Constant (PyInt 1) else Constant (PyInt 0))"
| "differentiate ops (Add l r) var =
     (case simplify ops l of Inl err \<Rightarrow> Inl err | Inr left \<Rightarrow>
      case simplify ops r of Inl err \<Rightarrow> Inl err | Inr right \<Rightarrow>
      case differentiate ops left var of Inl err \<Rightarrow> Inl err | Inr dl \<Rightarrow>
      case differentiate ops right var of Inl err \<Rightarrow> Inl err | Inr dr \<Rightarrow>
        Inr (Add dl dr))"
| "differentiate ops (Multiply l r) var =
     (case simplify ops l of Inl err \<Rightarrow> Inl err | Inr left \<Rightarrow>
      case simplify ops r of Inl err \<Rightarrow> Inl err | Inr right \<Rightarrow>
      case differentiate ops left var of Inl err \<Rightarrow> Inl err | Inr dl \<Rightarrow>
      case differentiate ops right var of Inl err \<Rightarrow> Inl err | Inr dr \<Rightarrow>
        Inr (Add (Multiply dl right) (Multiply left dr)))"
| "differentiate ops (Power b e) var =
     (case simplify ops b of Inl err \<Rightarrow> Inl err | Inr base \<Rightarrow>
      case simplify ops e of Inl err \<Rightarrow> Inl err | Inr exponent \<Rightarrow>
      case differentiate ops base var of Inl err \<Rightarrow> Inl err | Inr db \<Rightarrow>
        Inr (Multiply
               (Multiply exponent (Power base (Add exponent (Constant (PyInt (- 1))))))
               db))"
  by pat_completeness auto
termination
proof -
  have le: "nodes t \<le> nodes e" if "simplify ops e = Inr t"
    for ops :: "'o pyops" and e t
    using that
  proof (induction e arbitrary: t)
    case (Add l r)
    then show ?case
      by (fastforce simp: simplify_Add_def split: sum.splits if_splits expr.splits)
  next
    case (Multiply l r)
    then show ?case
      by (fastforce simp: simplify_Multiply_def split: sum.splits if_splits expr.splits)
  next
    case (Power b e)
    then show ?case
      by (fastforce simp: simplify_Power_def split: sum.splits if_splits expr.splits)
  qed auto
  show ?thesis
    by (relation "measure (\<lambda>(ops, e, var). nodes e)")
       (auto dest: le simp: less_Suc_eq_le)
qed

section \<open>The construction layer\<close>

text \<open>
  An operand of an overloaded operator is an Expression or any other Python value.
  \<^verbatim>\<open>to_expression\<close> has no \<^verbatim>\<open>raise\<close>: a value that is not an Expression is wrapped
  in a Constant, whatever it is.
\<close>

datatype 'o operand = Expr "'o expr" | Raw "'o pyval"

fun to_expression :: "'o operand \<Rightarrow> 'o expr" where
  "to_expression (Expr e) = e"
| "to_expression (Raw v) = Constant v"

text \<open>
  The operator methods of \<^verbatim>\<open>Expression\<close>: \<open>expr_add\<close> is \<^verbatim>\<open>__add__\<close>, \<open>expr_radd\<close>
  is \<^verbatim>\<open>__radd__\<close>, and so on. The first argument is \<^verbatim>\<open>self\<close>, the second is
  \<^verbatim>\<open>other\<close>. In \<^verbatim>\<open>a - b\<close> the method \<^verbatim>\<open>__sub__\<close> runs with \<open>self = a\<close> and
  \<open>other = b\<close>, and the reflected method \<^verbatim>\<open>__rsub__\<close> runs with \<open>self = b\<close> and
  \<open>other = a\<close>; likewise for \<^verbatim>\<open>+\<close> and \<^verbatim>\<open>*\<close>. Which of the two Python calls is
  decided by the interpreter, outside the source, and is not modelled. The class has
  no \<^verbatim>\<open>__rpow__\<close>.
\<close>

definition expr_add :: "'o expr \<Rightarrow> 'o operand \<Rightarrow> 'o expr" where
  "expr_add self other = Add self (to_expression other)"

definition expr_radd :: "'o expr \<Rightarrow> 'o operand \<Rightarrow> 'o expr" where
  "expr_radd self other = Add (to_expression other) self"

definition expr_sub :: "'o expr \<Rightarrow> 'o operand \<Rightarrow> 'o expr" where
  "expr_sub self other =
     Add self (Multiply (Constant (PyInt (- 1))) (to_expression other))"

definition expr_rsub :: "'o expr \<Rightarrow> 'o operand \<Rightarrow> 'o expr" where
  "expr_rsub self other =
     Add (to_expression other) (Multiply (Constant (PyInt (- 1))) self)"

definition expr_mul :: "'o expr \<Rightarrow> 'o operand \<Rightarrow> 'o expr" where
  "expr_mul self other = Multiply self (to_expression other)"

definition expr_rmul :: "'o expr \<Rightarrow> 'o operand \<Rightarrow> 'o expr" where
  "expr_rmul self other = Multiply (to_expression other) self"

definition expr_pow :: "'o expr \<Rightarrow> 'o operand \<Rightarrow> 'o expr" where
  "expr_pow self other = Power self (to_expression other)"

section \<open>Properties of trees\<close>

text \<open>\<open>occurs var e\<close>: a Variable node named \<open>var\<close> occurs in \<open>e\<close>.\<close>

fun occurs :: "string \<Rightarrow> 'o expr \<Rightarrow> bool" where
  "occurs var (Constant v) = False"
| "occurs var (Variable name) = (name = var)"
| "occurs var (Add l r) = (occurs var l \<or> occurs var r)"
| "occurs var (Multiply l r) = (occurs var l \<or> occurs var r)"
| "occurs var (Power b e) = (occurs var b \<or> occurs var e)"

fun is_Constant :: "'o expr \<Rightarrow> bool" where
  "is_Constant (Constant v) = True"
| "is_Constant e = False"

text \<open>
  Reduced form: no Add node has a child that is a Constant equal to 0, no Multiply node
  has a child that is a Constant equal to 0 or to 1, no Power node has an exponent that
  is a Constant equal to 0 or to 1, and no Add, Multiply or Power node has two Constant
  children. Equality with 0 and 1 is Python's \<^verbatim>\<open>==\<close>, the test the source makes.
\<close>

fun reduced :: "'o pyops \<Rightarrow> 'o expr \<Rightarrow> bool" where
  "reduced ops (Constant v) = True"
| "reduced ops (Variable name) = True"
| "reduced ops (Add l r) =
     (reduced ops l \<and> reduced ops r \<and> \<not> const_eq ops l 0 \<and> \<not> const_eq ops r 0
      \<and> \<not> (is_Constant l \<and> is_Constant r))"
| "reduced ops (Multiply l r) =
     (reduced ops l \<and> reduced ops r \<and> \<not> const_eq ops l 0 \<and> \<not> const_eq ops r 0
      \<and> \<not> const_eq ops l 1 \<and> \<not> const_eq ops r 1
      \<and> \<not> (is_Constant l \<and> is_Constant r))"
| "reduced ops (Power b e) =
     (reduced ops b \<and> reduced ops e \<and> \<not> const_eq ops e 0 \<and> \<not> const_eq ops e 1
      \<and> \<not> (is_Constant b \<and> is_Constant e))"

text \<open>\<open>int_consts e\<close>: the value of every Constant node of \<open>e\<close> is an int.\<close>

fun int_consts :: "'o expr \<Rightarrow> bool" where
  "int_consts (Constant (PyInt i)) = True"
| "int_consts (Constant (PyObj x)) = False"
| "int_consts (Variable name) = True"
| "int_consts (Add l r) = (int_consts l \<and> int_consts r)"
| "int_consts (Multiply l r) = (int_consts l \<and> int_consts r)"
| "int_consts (Power b e) = (int_consts b \<and> int_consts e)"

text \<open>
  \<open>polynomial e\<close>: every Constant node is an int and the exponent of every Power
  node is an int literal that is at least 1, as in \<^verbatim>\<open>3 * x**2 + 2 * x + 1\<close>.
\<close>

fun polynomial :: "'o expr \<Rightarrow> bool" where
  "polynomial (Constant (PyInt i)) = True"
| "polynomial (Constant (PyObj x)) = False"
| "polynomial (Variable name) = True"
| "polynomial (Add l r) = (polynomial l \<and> polynomial r)"
| "polynomial (Multiply l r) = (polynomial l \<and> polynomial r)"
| "polynomial (Power b (Constant (PyInt n))) = (polynomial b \<and> 1 \<le> n)"
| "polynomial (Power b e) = False"

section \<open>Compositions the properties are about\<close>

text \<open>\<^verbatim>\<open>e.differentiate(var).simplify()\<close>, as the demonstration in \<^verbatim>\<open>__main__\<close> calls it.\<close>

definition simplified_derivative :: "'o pyops \<Rightarrow> 'o expr \<Rightarrow> string \<Rightarrow> pyerr + 'o expr" where
  "simplified_derivative ops e var =
     (case differentiate ops e var of Inl err \<Rightarrow> Inl err | Inr d \<Rightarrow> simplify ops d)"

text \<open>
  The tree \<^verbatim>\<open>f1 = 3 * x**2 + 2 * x + 1\<close> of \<^verbatim>\<open>__main__\<close>, with \<^verbatim>\<open>x = Variable('x')\<close>.
\<close>

definition f1 :: "'o expr" where
  "f1 = Add (Add (Multiply (Constant (PyInt 3)) (Power (Variable ''x'') (Constant (PyInt 2))))
                 (Multiply (Constant (PyInt 2)) (Variable ''x'')))
            (Constant (PyInt 1))"

text \<open>
  The two sides of the sum rule. \<open>sum_rule_left\<close> is
  \<^verbatim>\<open>Add(a, b).differentiate(var).simplify()\<close> and \<open>sum_rule_right\<close> is
  \<^verbatim>\<open>Add(a.differentiate(var), b.differentiate(var)).simplify()\<close>; \<open>rendered\<close> is
  \<^verbatim>\<open>str\<close> of a result, when there is one.
\<close>

definition sum_rule_left :: "'o pyops \<Rightarrow> 'o expr \<Rightarrow> 'o expr \<Rightarrow> string \<Rightarrow> pyerr + 'o expr" where
  "sum_rule_left ops a b var = simplified_derivative ops (Add a b) var"

definition sum_rule_right :: "'o pyops \<Rightarrow> 'o expr \<Rightarrow> 'o expr \<Rightarrow> string \<Rightarrow> pyerr + 'o expr" where
  "sum_rule_right ops a b var =
     (case differentiate ops a var of Inl err \<Rightarrow> Inl err | Inr da \<Rightarrow>
      case differentiate ops b var of Inl err \<Rightarrow> Inl err | Inr db \<Rightarrow>
        simplify ops (Add da db))"

definition rendered :: "'o pyops \<Rightarrow> pyerr + 'o expr \<Rightarrow> pyerr + string" where
  "rendered ops res = (case res of Inl err \<Rightarrow> Inl err | Inr t \<Rightarrow> Inr (str ops t))"

section \<open>Simplification: reduced form and idempotence\<close>

lemma simplify_Add_reduced:
  "reduced ops l \<Longrightarrow> reduced ops r \<Longrightarrow> simplify_Add ops l r = Inr t \<Longrightarrow> reduced ops t"
  by (auto simp: simplify_Add_def split: if_splits expr.splits sum.splits)

lemma simplify_Multiply_reduced:
  "reduced ops l \<Longrightarrow> reduced ops r \<Longrightarrow> simplify_Multiply ops l r = Inr t \<Longrightarrow> reduced ops t"
  by (auto simp: simplify_Multiply_def split: if_splits expr.splits sum.splits)

lemma simplify_Power_reduced:
  "reduced ops b \<Longrightarrow> reduced ops e \<Longrightarrow> simplify_Power ops b e = Inr t \<Longrightarrow> reduced ops t"
  by (auto simp: simplify_Power_def split: if_splits expr.splits sum.splits)

lemma simplify_reduced: "simplify ops e = Inr t \<Longrightarrow> reduced ops t"
proof (induction e arbitrary: t)
  case (Add l r)
  then show ?case
    by (auto split: sum.splits intro: simplify_Add_reduced)
next
  case (Multiply l r)
  then show ?case
    by (auto split: sum.splits intro: simplify_Multiply_reduced)
next
  case (Power b e)
  then show ?case
    by (auto split: sum.splits intro: simplify_Power_reduced)
qed auto

text \<open>A reduced tree is a fixed point: no test of the three chains fires on it.\<close>

lemma reduced_simplify: "reduced ops t \<Longrightarrow> simplify ops t = Inr t"
proof (induction t)
  case (Add l r)
  then show ?case
    by (cases l; cases r) (simp_all add: simplify_Add_def)
next
  case (Multiply l r)
  then show ?case
    by (cases l; cases r) (simp_all add: simplify_Multiply_def)
next
  case (Power b e)
  then show ?case
    by (cases b; cases e) (simp_all add: simplify_Power_def)
qed simp_all

lemma simplify_idem: "simplify ops e = Inr t \<Longrightarrow> simplify ops t = Inr t"
  by (rule reduced_simplify) (rule simplify_reduced)

text \<open>
  \<open>differentiate\<close> raises only through the \<open>simplify\<close> calls on the children, so on
  a reduced tree it returns.
\<close>

lemma reduced_differentiate: "reduced ops t \<Longrightarrow> \<exists>d. differentiate ops t var = Inr d"
proof (induction t)
  case (Add l r)
  then show ?case by (auto simp: reduced_simplify)
next
  case (Multiply l r)
  then show ?case by (auto simp: reduced_simplify)
next
  case (Power b e)
  then show ?case by (auto simp: reduced_simplify)
qed simp_all

lemma simplify_occurs: "simplify ops e = Inr t \<Longrightarrow> occurs var t \<Longrightarrow> occurs var e"
proof (induction e arbitrary: t)
  case (Add l r)
  then show ?case
    by (auto simp: simplify_Add_def split: sum.splits if_splits expr.splits)
next
  case (Multiply l r)
  then show ?case
    by (auto simp: simplify_Multiply_def split: sum.splits if_splits expr.splits)
next
  case (Power b e)
  then show ?case
    by (auto simp: simplify_Power_def split: sum.splits if_splits expr.splits)
qed auto

section \<open>The polynomial fragment\<close>


lemma polynomial_Power_cases:
  assumes "polynomial (Power b e)"
  obtains n where "e = Constant (PyInt n)" "1 \<le> n" "polynomial b"
  using assms by (cases "Power b e" rule: polynomial.cases) auto

lemma polynomial_simplify_Add:
  "polynomial l \<Longrightarrow> polynomial r \<Longrightarrow> \<exists>t. simplify_Add ops l r = Inr t \<and> polynomial t"
  by (cases l rule: polynomial.cases; cases r rule: polynomial.cases)
     (auto simp: simplify_Add_def)

lemma polynomial_simplify_Multiply:
  "polynomial l \<Longrightarrow> polynomial r \<Longrightarrow> \<exists>t. simplify_Multiply ops l r = Inr t \<and> polynomial t"
  by (cases l rule: polynomial.cases; cases r rule: polynomial.cases)
     (auto simp: simplify_Multiply_def)

lemma polynomial_simplify_Power:
  "polynomial b \<Longrightarrow> 0 \<le> n \<Longrightarrow>
     \<exists>t. simplify_Power ops b (Constant (PyInt n)) = Inr t \<and> polynomial t"
  by (cases b rule: polynomial.cases) (auto simp: simplify_Power_def)

lemma polynomial_simplify: "polynomial e \<Longrightarrow> \<exists>t. simplify ops e = Inr t \<and> polynomial t"
proof (induction e rule: polynomial.induct)
  case (4 l r)
  then show ?case using polynomial_simplify_Add [of _ _ ops] by fastforce
next
  case (5 l r)
  then show ?case using polynomial_simplify_Multiply [of _ _ ops] by fastforce
next
  case (6 b n)
  then show ?case using polynomial_simplify_Power [of _ n ops] by fastforce
qed auto

section \<open>The simplified derivative\<close>

text \<open>
  \<open>simplified_derivative\<close> of a binary node, in terms of the simplified children and
  their simplified derivatives.
\<close>

lemma simplified_derivative_leaf [simp]:
  "simplified_derivative ops (Constant v) var = Inr (Constant (PyInt 0))"
  "simplified_derivative ops (Variable name) var =
     Inr (if name = var then Constant (PyInt 1) else Constant (PyInt 0))"
  by (simp_all add: simplified_derivative_def)

lemma simplified_derivative_Add:
  assumes "simplify ops l = Inr l'" "simplify ops r = Inr r'"
    and "simplified_derivative ops l' var = Inr sl"
    and "simplified_derivative ops r' var = Inr sr"
  shows "simplified_derivative ops (Add l r) var = simplify_Add ops sl sr"
  using assms by (auto simp: simplified_derivative_def split: sum.splits)

lemma simplified_derivative_Multiply:
  assumes "simplify ops l = Inr l'" "simplify ops r = Inr r'"
    and "simplified_derivative ops l' var = Inr sl"
    and "simplified_derivative ops r' var = Inr sr"
  shows "simplified_derivative ops (Multiply l r) var =
     (case simplify_Multiply ops sl r' of Inl err \<Rightarrow> Inl err | Inr x \<Rightarrow>
      case simplify_Multiply ops l' sr of Inl err \<Rightarrow> Inl err | Inr y \<Rightarrow>
        simplify_Add ops x y)"
  using assms simplify_idem [OF assms(1)] simplify_idem [OF assms(2)]
  by (auto simp: simplified_derivative_def split: sum.splits)

lemma simplified_derivative_Power:
  assumes "simplify ops b = Inr b'" "simplify ops e = Inr e'"
    and "simplified_derivative ops b' var = Inr sb"
  shows "simplified_derivative ops (Power b e) var =
     (case simplify_Add ops e' (Constant (PyInt (- 1))) of Inl err \<Rightarrow> Inl err | Inr x \<Rightarrow>
      case simplify_Power ops b' x of Inl err \<Rightarrow> Inl err | Inr p \<Rightarrow>
      case simplify_Multiply ops e' p of Inl err \<Rightarrow> Inl err | Inr m \<Rightarrow>
        simplify_Multiply ops m sb)"
  using assms simplify_idem [OF assms(1)] simplify_idem [OF assms(2)]
  by (auto simp: simplified_derivative_def split: sum.splits)

lemma polynomial_simplified_derivative:
  "polynomial e \<Longrightarrow> \<exists>t. simplified_derivative ops e var = Inr t \<and> polynomial t"
proof (induction ops e var rule: differentiate.induct)
  case (1 ops v var)
  then show ?case by simp
next
  case (2 ops name var)
  then show ?case by simp
next
  case (3 ops l r var)
  from "3.prems" obtain l' r' where
    s: "simplify ops l = Inr l'" "simplify ops r = Inr r'" and p: "polynomial l'" "polynomial r'"
    using polynomial_simplify [of l ops] polynomial_simplify [of r ops] by auto
  from "3.IH"(1) [OF s p(1)] obtain sl where
    sl: "simplified_derivative ops l' var = Inr sl" "polynomial sl" by auto
  then obtain dl where "differentiate ops l' var = Inr dl"
    by (auto simp: simplified_derivative_def split: sum.splits)
  from "3.IH"(2) [OF s this p(2)] obtain sr where
    sr: "simplified_derivative ops r' var = Inr sr" "polynomial sr" by auto
  show ?case
    using simplified_derivative_Add [OF s sl(1) sr(1)] polynomial_simplify_Add [OF sl(2) sr(2), of ops]
    by simp
next
  case (4 ops l r var)
  from "4.prems" obtain l' r' where
    s: "simplify ops l = Inr l'" "simplify ops r = Inr r'" and p: "polynomial l'" "polynomial r'"
    using polynomial_simplify [of l ops] polynomial_simplify [of r ops] by auto
  from "4.IH"(1) [OF s p(1)] obtain sl where
    sl: "simplified_derivative ops l' var = Inr sl" "polynomial sl" by auto
  then obtain dl where "differentiate ops l' var = Inr dl"
    by (auto simp: simplified_derivative_def split: sum.splits)
  from "4.IH"(2) [OF s this p(2)] obtain sr where
    sr: "simplified_derivative ops r' var = Inr sr" "polynomial sr" by auto
  obtain x where x: "simplify_Multiply ops sl r' = Inr x" "polynomial x"
    using polynomial_simplify_Multiply [OF sl(2) p(2), of ops] by auto
  obtain y where y: "simplify_Multiply ops l' sr = Inr y" "polynomial y"
    using polynomial_simplify_Multiply [OF p(1) sr(2), of ops] by auto
  show ?case
    using simplified_derivative_Multiply [OF s sl(1) sr(1)] x y
      polynomial_simplify_Add [OF x(2) y(2), of ops]
    by simp
next
  case (5 ops b e var)
  from "5.prems" obtain n where e: "e = Constant (PyInt n)" and n: "1 \<le> n" and pb: "polynomial b"
    by (rule polynomial_Power_cases)
  obtain b' where s: "simplify ops b = Inr b'" "simplify ops e = Inr e" and p: "polynomial b'"
    using polynomial_simplify [OF pb, of ops] e by auto
  from "5.IH" [OF s p] obtain sb where
    sb: "simplified_derivative ops b' var = Inr sb" "polynomial sb" by auto
  have a: "simplify_Add ops e (Constant (PyInt (- 1))) = Inr (Constant (PyInt (n - 1)))"
    using n by (simp add: e simplify_Add_def)
  obtain q where q: "simplify_Power ops b' (Constant (PyInt (n - 1))) = Inr q" "polynomial q"
    using polynomial_simplify_Power [OF p, of "n - 1" ops] n by auto
  obtain m where m: "simplify_Multiply ops e q = Inr m" "polynomial m"
    using polynomial_simplify_Multiply [of e q ops] q(2) e by auto
  show ?case
    using simplified_derivative_Power [OF s sb(1)] a q m
      polynomial_simplify_Multiply [OF m(2) sb(2), of ops]
    by simp
qed



section \<open>The sum rule\<close>








section \<open>Runs that stay within the ints\<close>

text \<open>
  On a tree whose constants are ints, a run under \<open>int_only\<close> that returns a tree is
  the run under any \<open>ops\<close>: it never asks \<open>ops\<close> anything.
\<close>

lemma int_consts_const_eq: "int_consts t \<Longrightarrow> const_eq ops t n = (t = Constant (PyInt n))"
  by (cases t rule: int_consts.cases) auto

lemma int_only_simplify_Add:
  "int_consts l \<Longrightarrow> int_consts r \<Longrightarrow> simplify_Add int_only l r = Inr t
     \<Longrightarrow> simplify_Add ops l r = Inr t \<and> int_consts t"
  by (cases l rule: int_consts.cases; cases r rule: int_consts.cases)
     (auto simp: simplify_Add_def split: if_splits)

lemma int_only_simplify_Multiply:
  "int_consts l \<Longrightarrow> int_consts r \<Longrightarrow> simplify_Multiply int_only l r = Inr t
     \<Longrightarrow> simplify_Multiply ops l r = Inr t \<and> int_consts t"
  by (cases l rule: int_consts.cases; cases r rule: int_consts.cases)
     (auto simp: simplify_Multiply_def split: if_splits)

lemma int_only_simplify_Power:
  "int_consts b \<Longrightarrow> int_consts e \<Longrightarrow> simplify_Power int_only b e = Inr t
     \<Longrightarrow> simplify_Power ops b e = Inr t \<and> int_consts t"
  by (cases b rule: int_consts.cases; cases e rule: int_consts.cases)
     (auto simp: simplify_Power_def int_only_def split: if_splits)


lemma int_only_simplify:
  "int_consts e \<Longrightarrow> simplify int_only e = Inr t \<Longrightarrow> simplify ops e = Inr t \<and> int_consts t"
proof (induction e arbitrary: t)
  case (Constant v)
  then show ?case by auto
next
  case (Variable name)
  then show ?case by auto
next
  case (Add l r)
  from Add.prems(2) obtain l' r' where
    s: "simplify int_only l = Inr l'" "simplify int_only r = Inr r'" and
    t: "simplify_Add int_only l' r' = Inr t"
    by (auto split: sum.splits)
  have l: "simplify ops l = Inr l' \<and> int_consts l'" using Add.IH(1) Add.prems(1) s(1) by simp
  have r: "simplify ops r = Inr r' \<and> int_consts r'" using Add.IH(2) Add.prems(1) s(2) by simp
  from int_only_simplify_Add [of l' r' t ops] l r t show ?case by simp
next
  case (Multiply l r)
  from Multiply.prems(2) obtain l' r' where
    s: "simplify int_only l = Inr l'" "simplify int_only r = Inr r'" and
    t: "simplify_Multiply int_only l' r' = Inr t"
    by (auto split: sum.splits)
  have l: "simplify ops l = Inr l' \<and> int_consts l'"
    using Multiply.IH(1) Multiply.prems(1) s(1) by simp
  have r: "simplify ops r = Inr r' \<and> int_consts r'"
    using Multiply.IH(2) Multiply.prems(1) s(2) by simp
  from int_only_simplify_Multiply [of l' r' t ops] l r t show ?case by simp
next
  case (Power b e)
  from Power.prems(2) obtain b' e' where
    s: "simplify int_only b = Inr b'" "simplify int_only e = Inr e'" and
    t: "simplify_Power int_only b' e' = Inr t"
    by (auto split: sum.splits)
  have b: "simplify ops b = Inr b' \<and> int_consts b'"
    using Power.IH(1) Power.prems(1) s(1) by simp
  have e: "simplify ops e = Inr e' \<and> int_consts e'"
    using Power.IH(2) Power.prems(1) s(2) by simp
  from int_only_simplify_Power [of b' e' t ops] b e t show ?case by simp
qed

lemma int_only_differentiate_aux:
  "ops0 = int_only \<Longrightarrow> int_consts e \<Longrightarrow> differentiate ops0 e var = Inr d
     \<Longrightarrow> differentiate ops e var = Inr d \<and> int_consts d"
proof (induction ops0 e var arbitrary: d rule: differentiate.induct)
  case (3 ops0 l r var)
  from "3.prems" obtain l' r' dl dr where
    s: "simplify int_only l = Inr l'" "simplify int_only r = Inr r'" and
    dd: "differentiate int_only l' var = Inr dl" "differentiate int_only r' var = Inr dr" and
    d: "d = Add dl dr"
    by (auto split: sum.splits)
  have s': "simplify ops l = Inr l'" "int_consts l'" "simplify ops r = Inr r'" "int_consts r'"
    using "3.prems"(2) s int_only_simplify [of l l' ops] int_only_simplify [of r r' ops] by auto
  have "differentiate ops l' var = Inr dl \<and> int_consts dl"
    using "3.IH"(1) [of l' r' dl] "3.prems"(1) s s' dd by simp
  moreover have "differentiate ops r' var = Inr dr \<and> int_consts dr"
    using "3.IH"(2) [of l' r' dl dr] "3.prems"(1) s s' dd by simp
  ultimately show ?case using s' d by simp
next
  case (4 ops0 l r var)
  from "4.prems" obtain l' r' dl dr where
    s: "simplify int_only l = Inr l'" "simplify int_only r = Inr r'" and
    dd: "differentiate int_only l' var = Inr dl" "differentiate int_only r' var = Inr dr" and
    d: "d = Add (Multiply dl r') (Multiply l' dr)"
    by (auto split: sum.splits)
  have s': "simplify ops l = Inr l'" "int_consts l'" "simplify ops r = Inr r'" "int_consts r'"
    using "4.prems"(2) s int_only_simplify [of l l' ops] int_only_simplify [of r r' ops] by auto
  have "differentiate ops l' var = Inr dl \<and> int_consts dl"
    using "4.IH"(1) [of l' r' dl] "4.prems"(1) s s' dd by simp
  moreover have "differentiate ops r' var = Inr dr \<and> int_consts dr"
    using "4.IH"(2) [of l' r' dl dr] "4.prems"(1) s s' dd by simp
  ultimately show ?case using s' d by simp
next
  case (5 ops0 b e var)
  from "5.prems" obtain b' e' db where
    s: "simplify int_only b = Inr b'" "simplify int_only e = Inr e'" and
    dd: "differentiate int_only b' var = Inr db" and
    d: "d = Multiply (Multiply e' (Power b' (Add e' (Constant (PyInt (- 1)))))) db"
    by (auto split: sum.splits)
  have s': "simplify ops b = Inr b'" "int_consts b'" "simplify ops e = Inr e'" "int_consts e'"
    using "5.prems"(2) s int_only_simplify [of b b' ops] int_only_simplify [of e e' ops] by auto
  have "differentiate ops b' var = Inr db \<and> int_consts db"
    using "5.IH" [of b' e' db] "5.prems"(1) s s' dd by simp
  then show ?case using s' d by simp
qed auto

lemma int_only_differentiate:
  "int_consts e \<Longrightarrow> differentiate int_only e var = Inr d
     \<Longrightarrow> differentiate ops e var = Inr d \<and> int_consts d"
  by (rule int_only_differentiate_aux [OF refl])

lemma int_only_sum_rule:
  assumes "int_consts a" "int_consts b"
  shows "sum_rule_left int_only a b var = Inr t \<Longrightarrow> sum_rule_left ops a b var = Inr t"
    and "sum_rule_right int_only a b var = Inr u \<Longrightarrow> sum_rule_right ops a b var = Inr u"
proof -
  assume "sum_rule_left int_only a b var = Inr t"
  then obtain d where d: "differentiate int_only (Add a b) var = Inr d" "simplify int_only d = Inr t"
    by (auto simp: sum_rule_left_def simplified_derivative_def split: sum.splits)
  have "int_consts (Add a b)" using assms by simp
  from int_only_differentiate [OF this d(1), of ops] int_only_simplify [of d t ops] d(2)
  show "sum_rule_left ops a b var = Inr t"
    by (simp add: sum_rule_left_def simplified_derivative_def)
next
  assume "sum_rule_right int_only a b var = Inr u"
  then obtain da db where d: "differentiate int_only a var = Inr da"
    "differentiate int_only b var = Inr db" "simplify int_only (Add da db) = Inr u"
    by (auto simp: sum_rule_right_def split: sum.splits)
  from int_only_differentiate [OF assms(1) d(1), of ops] int_only_differentiate [OF assms(2) d(2), of ops]
    int_only_simplify [of "Add da db" u ops] d(3)
  show "sum_rule_right ops a b var = Inr u"
    by (simp add: sum_rule_right_def)
qed

text \<open>
  In the derivative of a tree without the variable every product has a factor that
  simplifies to the int 0.
\<close>

lemma simplify_Add_zero_left: "simplify_Add ops (Constant (PyInt 0)) t = Inr t"
  by (simp add: simplify_Add_def)

lemma simplify_Multiply_zero_left:
  "simplify_Multiply ops (Constant (PyInt 0)) t = Inr (Constant (PyInt 0))"
  by (simp add: simplify_Multiply_def)

lemma simplify_Multiply_zero_right:
  "simplify_Multiply ops t (Constant (PyInt 0)) = Inr (Constant (PyInt 0))"
  by (simp add: simplify_Multiply_def)

lemma derivative_zero:
  "\<not> occurs var e \<Longrightarrow> differentiate ops e var = Inr d \<Longrightarrow> simplify ops d = Inr t
     \<Longrightarrow> t = Constant (PyInt 0)"
proof (induction ops e var arbitrary: d t rule: differentiate.induct)
  case (1 ops v var)
  then show ?case by auto
next
  case (2 ops name var)
  then show ?case by auto
next
  case (3 ops l r var)
  from "3.prems"(2) obtain left right dl dr where
    s: "simplify ops l = Inr left" "simplify ops r = Inr right" and
    dd: "differentiate ops left var = Inr dl" "differentiate ops right var = Inr dr" and
    d: "d = Add dl dr"
    by (auto split: sum.splits)
  from "3.prems"(3) d obtain sl sr where
    t: "simplify ops dl = Inr sl" "simplify ops dr = Inr sr" "simplify_Add ops sl sr = Inr t"
    by (auto split: sum.splits)
  have "\<not> occurs var left" "\<not> occurs var right"
    using "3.prems"(1) s by (auto dest: simplify_occurs)
  then have "sl = Constant (PyInt 0)" "sr = Constant (PyInt 0)"
    using "3.IH" s dd t by blast+
  with t show ?case by (simp add: simplify_Add_zero_left)
next
  case (4 ops l r var)
  from "4.prems"(2) obtain left right dl dr where
    s: "simplify ops l = Inr left" "simplify ops r = Inr right" and
    dd: "differentiate ops left var = Inr dl" "differentiate ops right var = Inr dr" and
    d: "d = Add (Multiply dl right) (Multiply left dr)"
    by (auto split: sum.splits)
  from "4.prems"(3) d obtain sl right' x left' sr y where
    t: "simplify ops dl = Inr sl" "simplify ops right = Inr right'"
       "simplify_Multiply ops sl right' = Inr x"
       "simplify ops left = Inr left'" "simplify ops dr = Inr sr"
       "simplify_Multiply ops left' sr = Inr y" "simplify_Add ops x y = Inr t"
    by (auto split: sum.splits)
  have "\<not> occurs var left" "\<not> occurs var right"
    using "4.prems"(1) s by (auto dest: simplify_occurs)
  then have sl: "sl = Constant (PyInt 0)" and sr: "sr = Constant (PyInt 0)"
    using "4.IH" s dd t by blast+
  have x: "x = Constant (PyInt 0)"
    using t(3) unfolding sl by (simp add: simplify_Multiply_zero_left)
  have y: "y = Constant (PyInt 0)"
    using t(6) unfolding sr by (simp add: simplify_Multiply_zero_right)
  show ?case
    using t(7) unfolding x y by (simp add: simplify_Add_zero_left)
next
  case (5 ops b e var)
  from "5.prems"(2) obtain base exponent db where
    s: "simplify ops b = Inr base" "simplify ops e = Inr exponent" and
    dd: "differentiate ops base var = Inr db" and
    d: "d = Multiply (Multiply exponent (Power base (Add exponent (Constant (PyInt (- 1)))))) db"
    by (auto split: sum.splits)
  from "5.prems"(3) d obtain m sb where
    t: "simplify ops db = Inr sb" "simplify_Multiply ops m sb = Inr t"
    by (auto split: sum.splits)
  have "\<not> occurs var base"
    using "5.prems"(1) s by (auto dest: simplify_occurs)
  then have "sb = Constant (PyInt 0)"
    using "5.IH" s dd t by blast
  with t show ?case by (simp add: simplify_Multiply_zero_right)
qed

text \<open>
  The method calls of \<^verbatim>\<open>3 * x**2 + 2 * x + 1\<close> build the tree \<open>f1\<close>: \<^verbatim>\<open>x**2\<close> is
  \<^verbatim>\<open>x.__pow__(2)\<close>, an int on the left of \<^verbatim>\<open>*\<close> leads to \<^verbatim>\<open>__rmul__\<close>, and both
  \<^verbatim>\<open>+\<close> have an Expression on the left.
\<close>

lemma f1_built:
  "expr_add
     (expr_add (expr_rmul (expr_pow (Variable ''x'') (Raw (PyInt 2))) (Raw (PyInt 3)))
               (Expr (expr_rmul (Variable ''x'') (Raw (PyInt 2)))))
     (Raw (PyInt 1)) = f1"
  by (simp add: f1_def expr_pow_def expr_rmul_def expr_add_def)

section \<open>The claims\<close>

text \<open>
  Claim C1, amended. For \<open>f1\<close>, the tree of \<^verbatim>\<open>3 * x**2 + 2 * x + 1\<close>,
  \<^verbatim>\<open>simplify(differentiate(f1, 'x'))\<close> is
  \<^verbatim>\<open>Add(Multiply(Constant(3), Multiply(Constant(2), Variable('x'))), Constant(2))\<close>, which
  renders as \<^verbatim>\<open>((3 * (2 * x)) + 2)\<close>, and simplifying it again leaves it unchanged. The
  factors 3 and 2 are not merged into 6: \<open>simplify_Multiply\<close> folds two Constant
  children only, and here the right child is a Multiply node.
\<close>

theorem f1_simplified_derivative:
  "simplified_derivative ops f1 ''x'' =
     Inr (Add (Multiply (Constant (PyInt 3)) (Multiply (Constant (PyInt 2)) (Variable ''x'')))
              (Constant (PyInt 2)))
   \<and> str ops (Add (Multiply (Constant (PyInt 3)) (Multiply (Constant (PyInt 2)) (Variable ''x'')))
                 (Constant (PyInt 2))) = ''((3 * (2 * x)) + 2)''
   \<and> simplify ops (Add (Multiply (Constant (PyInt 3)) (Multiply (Constant (PyInt 2)) (Variable ''x'')))
                      (Constant (PyInt 2))) =
     Inr (Add (Multiply (Constant (PyInt 3)) (Multiply (Constant (PyInt 2)) (Variable ''x'')))
              (Constant (PyInt 2)))"
  by (simp add: simplified_derivative_def f1_def simplify_Add_def simplify_Multiply_def
      simplify_Power_def str_int_def digits.simps)

text \<open>
  The claim as stated fails: the result is not the tree of \<^verbatim>\<open>6x + 2\<close>, and its text is
  not the text of that tree.
\<close>

theorem f1_simplified_derivative_counterexample:
  "simplified_derivative (int_only :: unit pyops) f1 ''x'' \<noteq>
     Inr (Add (Multiply (Constant (PyInt 6)) (Variable ''x'')) (Constant (PyInt 2)))
   \<and> rendered (int_only :: unit pyops) (simplified_derivative int_only f1 ''x'') \<noteq>
     Inr (str (int_only :: unit pyops)
            (Add (Multiply (Constant (PyInt 6)) (Variable ''x'')) (Constant (PyInt 2))))"
  by (simp add: rendered_def simplified_derivative_def f1_def simplify_Add_def
      simplify_Multiply_def simplify_Power_def str_int_def digits.simps)

text \<open>
  Claim C2, amended. \<^verbatim>\<open>to_expression\<close> never fails: it returns an Expression operand
  unchanged and wraps every other value, numeric or not, in a Constant. Hence each
  operator method of \<^verbatim>\<open>Expression\<close> (\<^verbatim>\<open>__add__\<close>, \<^verbatim>\<open>__radd__\<close>, \<^verbatim>\<open>__sub__\<close>,
  \<^verbatim>\<open>__rsub__\<close>, \<^verbatim>\<open>__mul__\<close>, \<^verbatim>\<open>__rmul__\<close>, \<^verbatim>\<open>__pow__\<close>) builds its tree for every value
  of its other operand; the source has no coercion error.
\<close>

theorem construction_accepts_every_operand:
  "to_expression (Expr e) = e
   \<and> to_expression (Raw v) = Constant v
   \<and> expr_add self (Raw v) = Add self (Constant v)
   \<and> expr_radd self (Raw v) = Add (Constant v) self
   \<and> expr_sub self (Raw v) = Add self (Multiply (Constant (PyInt (- 1))) (Constant v))
   \<and> expr_rsub self (Raw v) = Add (Constant v) (Multiply (Constant (PyInt (- 1))) self)
   \<and> expr_mul self (Raw v) = Multiply self (Constant v)
   \<and> expr_rmul self (Raw v) = Multiply (Constant v) self
   \<and> expr_pow self (Raw v) = Power self (Constant v)"
  by (simp add: expr_add_def expr_radd_def expr_sub_def expr_rsub_def expr_mul_def
      expr_rmul_def expr_pow_def)

text \<open>
  The claim as stated fails on the Python str \<^verbatim>\<open>'abc'\<close> (objects are strings here):
  \<^verbatim>\<open>to_expression('abc')\<close> is \<^verbatim>\<open>Constant('abc')\<close> and \<^verbatim>\<open>Variable('x').__add__('abc')\<close>
  builds an Add node; no error is raised.
\<close>

theorem construction_accepts_every_operand_counterexample:
  "to_expression (Raw (PyObj ''abc'')) = Constant (PyObj ''abc'')
   \<and> expr_add (Variable ''x'') (Raw (PyObj ''abc'')) =
       Add (Variable ''x'') (Constant (PyObj ''abc''))"
  by (simp add: expr_add_def)

text \<open>
  Claim C3. \<^verbatim>\<open>differentiate(Power(base, exponent), var)\<close> simplifies base and exponent to
  \<open>b'\<close> and \<open>e'\<close> and returns
  \<^verbatim>\<open>Multiply(Multiply(e', Power(b', Add(e', Constant(-1)))), differentiate(b', var))\<close>: the
  first conjunct is the equation with the exceptions of the three calls passed on, and
  the second says that whenever both simplifications return, the derivative of \<open>b'\<close>
  returns too and the result is exactly this tree. No other term is produced, whatever
  the exponent is.
\<close>

theorem differentiate_Power_base_term:
  "differentiate ops (Power b e) var =
     (case simplify ops b of Inl err \<Rightarrow> Inl err | Inr b' \<Rightarrow>
      case simplify ops e of Inl err \<Rightarrow> Inl err | Inr e' \<Rightarrow>
      case differentiate ops b' var of Inl err \<Rightarrow> Inl err | Inr db \<Rightarrow>
        Inr (Multiply (Multiply e' (Power b' (Add e' (Constant (PyInt (- 1)))))) db))
   \<and> (\<forall>b' e'. simplify ops b = Inr b' \<longrightarrow> simplify ops e = Inr e' \<longrightarrow>
        (\<exists>db. differentiate ops b' var = Inr db \<and>
              differentiate ops (Power b e) var =
                Inr (Multiply (Multiply e' (Power b' (Add e' (Constant (PyInt (- 1)))))) db)))"
proof -
  have "\<exists>db. differentiate ops b' var = Inr db" if "simplify ops b = Inr b'" for b'
    using that by (intro reduced_differentiate simplify_reduced)
  then show ?thesis by fastforce
qed

text \<open>
  The instance \<^verbatim>\<open>2 ** x\<close>, whose exponent is the variable of differentiation: the
  derivative is \<^verbatim>\<open>((x * (2^(x + -1))) * 0)\<close>, with no logarithmic term.
\<close>

theorem differentiate_Power_base_term_witness:
  "simplify (int_only :: unit pyops) (Constant (PyInt 2)) = Inr (Constant (PyInt 2))
   \<and> simplify (int_only :: unit pyops) (Variable ''x'') = Inr (Variable ''x'')
   \<and> differentiate (int_only :: unit pyops) (Constant (PyInt 2)) ''x'' = Inr (Constant (PyInt 0))
   \<and> differentiate (int_only :: unit pyops) (Power (Constant (PyInt 2)) (Variable ''x'')) ''x'' =
       Inr (Multiply
              (Multiply (Variable ''x'')
                 (Power (Constant (PyInt 2)) (Add (Variable ''x'') (Constant (PyInt (- 1))))))
              (Constant (PyInt 0)))"
proof -
  let ?ops = "int_only :: unit pyops"
  have b: "simplify ?ops (Constant (PyInt 2)) = Inr (Constant (PyInt 2))" by simp
  have e: "simplify ?ops (Variable ''x'') = Inr (Variable ''x'')" by simp
  have d: "differentiate ?ops (Constant (PyInt 2)) ''x'' = Inr (Constant (PyInt 0))" by simp
  from differentiate_Power_base_term [of ?ops "Constant (PyInt 2)" "Variable ''x''" "''x''"] b e
  obtain db where "differentiate ?ops (Constant (PyInt 2)) ''x'' = Inr db"
    and "differentiate ?ops (Power (Constant (PyInt 2)) (Variable ''x'')) ''x'' =
       Inr (Multiply
              (Multiply (Variable ''x'')
                 (Power (Constant (PyInt 2)) (Add (Variable ''x'') (Constant (PyInt (- 1))))))
              db)"
    by blast
  with b e d show ?thesis by simp
qed




text \<open>
  Claim C5. \<open>simplify\<close> is idempotent: simplifying the result of \<open>simplify e\<close> gives
  that result again (and where \<open>simplify e\<close> raises, so does the composition, with the
  same exception). In particular \<^verbatim>\<open>simplify(Constant(5))\<close> is \<^verbatim>\<open>Constant(5)\<close> and
  \<^verbatim>\<open>simplify(Add(Constant(2), Constant(3)))\<close> is \<^verbatim>\<open>Constant(5)\<close>.
\<close>

theorem simplify_idempotent:
  "(case simplify ops e of Inl err \<Rightarrow> Inl err | Inr t \<Rightarrow> simplify ops t) = simplify ops e
   \<and> simplify ops (Constant (PyInt 5)) = Inr (Constant (PyInt 5))
   \<and> simplify ops (Add (Constant (PyInt 2)) (Constant (PyInt 3))) = Inr (Constant (PyInt 5))"
proof -
  have "(case simplify ops e of Inl err \<Rightarrow> Inl err | Inr t \<Rightarrow> simplify ops t) = simplify ops e"
    by (cases "simplify ops e") (simp_all add: simplify_idem)
  then show ?thesis
    by (simp add: simplify_Add_def)
qed

text \<open>
  Claim C6, amended. For every \<open>b\<close> whose simplification returns,
  \<^verbatim>\<open>simplify(Power(b, Constant(0)))\<close> is \<^verbatim>\<open>Constant(1)\<close>: the test for a zero exponent comes
  before constant folding, and in particular \<^verbatim>\<open>simplify(Power(Constant(0), Constant(0)))\<close>
  is \<^verbatim>\<open>Constant(1)\<close>. For every \<open>b\<close>, \<^verbatim>\<open>simplify(Power(b, Constant(1)))\<close> is
  \<^verbatim>\<open>simplify(b)\<close>, exceptions included.
\<close>

theorem simplify_Power_zero_one:
  "(\<forall>b'. simplify ops b = Inr b' \<longrightarrow>
       simplify ops (Power b (Constant (PyInt 0))) = Inr (Constant (PyInt 1)))
   \<and> simplify ops (Power (Constant (PyInt 0)) (Constant (PyInt 0))) = Inr (Constant (PyInt 1))
   \<and> simplify ops (Power b (Constant (PyInt 1))) = simplify ops b"
  by (auto simp: simplify_Power_def split: sum.splits)

theorem simplify_Power_zero_one_witness:
  "simplify (int_only :: unit pyops) (Multiply (Constant (PyInt 2)) (Variable ''x'')) =
     Inr (Multiply (Constant (PyInt 2)) (Variable ''x''))
   \<and> simplify (int_only :: unit pyops)
       (Power (Multiply (Constant (PyInt 2)) (Variable ''x'')) (Constant (PyInt 0))) =
     Inr (Constant (PyInt 1))"
proof -
  let ?b = "Multiply (Constant (PyInt 2)) (Variable ''x'') :: unit expr"
  have h: "simplify int_only ?b = Inr ?b"
    by (simp add: simplify_Multiply_def)
  from simplify_Power_zero_one [of int_only ?b] h
  have "simplify int_only (Power ?b (Constant (PyInt 0))) = Inr (Constant (PyInt 1))"
    by blast
  with h show ?thesis by blast
qed

text \<open>
  The claim as stated fails for a base whose own simplification raises: the children
  are simplified before the exponent is tested, so \<^verbatim>\<open>simplify(Power(Power(Constant(0),
  Constant(-1)), Constant(0)))\<close> raises \<^verbatim>\<open>ZeroDivisionError\<close> from \<^verbatim>\<open>0 ** -1\<close>.
\<close>

theorem simplify_Power_zero_counterexample:
  "simplify (int_only :: unit pyops)
     (Power (Power (Constant (PyInt 0)) (Constant (PyInt (- 1)))) (Constant (PyInt 0)))
   = Inl ZeroDivisionError"
  by (simp add: simplify_Power_def)

text \<open>
  Claim C7. With \<open>x = Variable('x')\<close>: \<^verbatim>\<open>simplify(Add(x, Constant(0)))\<close> is \<open>x\<close>,
  \<^verbatim>\<open>simplify(Multiply(x, Constant(1)))\<close> is \<open>x\<close> and \<^verbatim>\<open>simplify(Multiply(x, Constant(0)))\<close>
  is \<^verbatim>\<open>Constant(0)\<close>.
\<close>

theorem simplify_identity_annihilator:
  "simplify ops (Add (Variable ''x'') (Constant (PyInt 0))) = Inr (Variable ''x'')
   \<and> simplify ops (Multiply (Variable ''x'') (Constant (PyInt 1))) = Inr (Variable ''x'')
   \<and> simplify ops (Multiply (Variable ''x'') (Constant (PyInt 0))) = Inr (Constant (PyInt 0))"
  by (simp add: simplify_Add_def simplify_Multiply_def)

text \<open>
  Claim C8. The subtraction \<^verbatim>\<open>a - b\<close> is built by \<^verbatim>\<open>__sub__\<close> (\<open>a\<close> is \<^verbatim>\<open>self\<close>, an
  Expression, and \<open>b\<close> is any operand) and by \<^verbatim>\<open>__rsub__\<close> (\<open>b\<close> is \<^verbatim>\<open>self\<close>, an
  Expression, and \<open>a\<close> is any operand, for instance a raw number). Both return exactly
  \<^verbatim>\<open>Add(to_expression(a), Multiply(Constant(-1), to_expression(b)))\<close>: an Add node over a
  Multiply node, there being no Subtract node among the five kinds of node.
\<close>

theorem subtraction_builds_Add:
  "expr_sub a b =
     Add (to_expression (Expr a)) (Multiply (Constant (PyInt (- 1))) (to_expression b))
   \<and> expr_rsub b' a' =
     Add (to_expression a') (Multiply (Constant (PyInt (- 1))) (to_expression (Expr b')))
   \<and> expr_sub (Variable ''x'') (Raw (PyInt 5)) =
     Add (Variable ''x'') (Multiply (Constant (PyInt (- 1))) (Constant (PyInt 5)))
   \<and> expr_rsub (Variable ''x'') (Raw (PyInt 5)) =
     Add (Constant (PyInt 5)) (Multiply (Constant (PyInt (- 1))) (Variable ''x''))
   \<and> expr_sub (Variable ''x'') (Expr (Variable ''y'')) =
     Add (Variable ''x'') (Multiply (Constant (PyInt (- 1))) (Variable ''y''))"
  by (simp add: expr_sub_def expr_rsub_def)

text \<open>
  Claim C9, amended. For every tree \<open>e\<close> in which no Variable node named \<open>var\<close>
  occurs, \<^verbatim>\<open>simplify(differentiate(e, var))\<close> is \<^verbatim>\<open>Constant(0)\<close> whenever it returns, and
  it does return when \<open>e\<close> is polynomial (int constants, every exponent an int literal
  that is at least 1).
\<close>

theorem derivative_without_variable:
  "\<not> occurs var e \<Longrightarrow>
     (\<forall>t. simplified_derivative ops e var = Inr t \<longrightarrow> t = Constant (PyInt 0))
     \<and> (polynomial e \<longrightarrow> simplified_derivative ops e var = Inr (Constant (PyInt 0)))"
proof -
  assume free: "\<not> occurs var e"
  have part: "t = Constant (PyInt 0)" if "simplified_derivative ops e var = Inr t" for t
    using that free
    by (auto simp: simplified_derivative_def split: sum.splits dest: derivative_zero)
  moreover have "simplified_derivative ops e var = Inr (Constant (PyInt 0))" if "polynomial e"
    using polynomial_simplified_derivative [OF that, of ops var] part by auto
  ultimately show ?thesis by blast
qed

theorem derivative_without_variable_witness:
  "\<not> occurs ''x''
       (Multiply (Constant (PyInt 3)) (Power (Variable ''y'') (Constant (PyInt 2))) :: unit expr)
   \<and> polynomial
       (Multiply (Constant (PyInt 3)) (Power (Variable ''y'') (Constant (PyInt 2))) :: unit expr)
   \<and> simplified_derivative (int_only :: unit pyops)
        (Multiply (Constant (PyInt 3)) (Power (Variable ''y'') (Constant (PyInt 2)))) ''x''
       = Inr (Constant (PyInt 0))"
proof -
  let ?e = "Multiply (Constant (PyInt 3)) (Power (Variable ''y'') (Constant (PyInt 2))) :: unit expr"
  have h: "\<not> occurs ''x'' ?e" by simp
  have p: "polynomial ?e" by simp
  from derivative_without_variable [OF h, of int_only] p
  have "simplified_derivative int_only ?e ''x'' = Inr (Constant (PyInt 0))" by blast
  with h p show ?thesis by blast
qed

text \<open>
  The claim as stated fails at \<open>e = 0^0\<close>, which contains no variable and simplifies to
  \<^verbatim>\<open>Constant(1)\<close>: its derivative is \<^verbatim>\<open>((0 * (0^(0 + -1))) * 0)\<close>, and simplifying the
  children of the inner product folds \<^verbatim>\<open>0 ** -1\<close>, which raises \<^verbatim>\<open>ZeroDivisionError\<close>.
\<close>

theorem derivative_without_variable_counterexample:
  "\<not> occurs ''x'' (Power (Constant (PyInt 0)) (Constant (PyInt 0)) :: unit expr)
   \<and> simplified_derivative (int_only :: unit pyops)
        (Power (Constant (PyInt 0)) (Constant (PyInt 0))) ''x'' = Inl ZeroDivisionError"
  by (simp add: simplified_derivative_def simplify_Add_def simplify_Multiply_def
      simplify_Power_def)

text \<open>
  Claim C10. Every tree that \<open>simplify\<close> returns is in reduced form: it has no Add
  node with a child \<^verbatim>\<open>Constant(0)\<close>, no Multiply node with a child \<^verbatim>\<open>Constant(0)\<close> or
  \<^verbatim>\<open>Constant(1)\<close>, no Power node whose exponent is \<^verbatim>\<open>Constant(0)\<close> or \<^verbatim>\<open>Constant(1)\<close>, and
  no Add, Multiply or Power node with two Constant children.
\<close>

theorem simplify_returns_reduced: "simplify ops e = Inr t \<Longrightarrow> reduced ops t"
  by (rule simplify_reduced)

theorem simplify_returns_reduced_witness:
  "simplify (int_only :: unit pyops)
     (Add (Multiply (Constant (PyInt 1)) (Variable ''x''))
          (Power (Constant (PyInt 2)) (Constant (PyInt 3))))
     = Inr (Add (Variable ''x'') (Constant (PyInt 8)))
   \<and> reduced (int_only :: unit pyops) (Add (Variable ''x'') (Constant (PyInt 8)))"
proof -
  have h: "simplify (int_only :: unit pyops)
     (Add (Multiply (Constant (PyInt 1)) (Variable ''x''))
          (Power (Constant (PyInt 2)) (Constant (PyInt 3))))
     = Inr (Add (Variable ''x'') (Constant (PyInt 8)))"
    by (simp add: simplify_Add_def simplify_Multiply_def simplify_Power_def)
  show ?thesis
    using h simplify_returns_reduced [OF h] by blast
qed

end
